theory Spec2Isabelle
  imports Main "HOL-Library.Word"
begin

unbundle bit_operations_syntax

section \<open>The PS/2 GPIO driver (app/module/drivers/ps2/ps2\_gpio.c)\<close>

subsection \<open>Constants and macros\<close>

definition PS2_GPIO_POS_START :: int where "PS2_GPIO_POS_START = 0"
definition PS2_GPIO_POS_PARITY :: int where "PS2_GPIO_POS_PARITY = 9"
definition PS2_GPIO_POS_STOP :: int where "PS2_GPIO_POS_STOP = 10"
definition PS2_GPIO_POS_ACK :: int where "PS2_GPIO_POS_ACK = 11"

text \<open>The values of \<open>errno.h\<close> used by the driver (Zephyr: EINVAL 22, ETIMEDOUT 116).\<close>

definition EINVAL :: int where "EINVAL = 22"
definition ETIMEDOUT :: int where "ETIMEDOUT = 116"

text \<open>
  \<^verbatim>\<open>#define PS2_GPIO_GET_BIT(data, bit_pos) ( (data >> bit_pos) & 0x1 )\<close>
  The operand is promoted to \<open>int\<close>; the driver only applies the macro to unsigned
  8 and 16 bit values, so the promoted operand is never negative. A negative shift
  count (undefined in C) is read as 0 by \<open>nat\<close>.
\<close>

definition PS2_GPIO_GET_BIT :: "int \<Rightarrow> int \<Rightarrow> int" where
  "PS2_GPIO_GET_BIT data bit_pos = (drop_bit (nat bit_pos) data) AND 1"

text \<open>
  \<^verbatim>\<open>#define PS2_GPIO_SET_BIT(data, bit_val, bit_pos) ( data |= (bit_val) << bit_pos )\<close>
  The shift is computed on \<open>int\<close> and the result is truncated to the width of
  \<open>data\<close> by the compound assignment.
\<close>

definition PS2_GPIO_SET_BIT :: "'a::len word \<Rightarrow> int \<Rightarrow> int \<Rightarrow> 'a word" where
  "PS2_GPIO_SET_BIT data bit_val bit_pos = data OR word_of_int (push_bit (nat bit_pos) bit_val)"

subsection \<open>Data model\<close>

datatype ps2_gpio_mode = PS2_GPIO_MODE_READ | PS2_GPIO_MODE_WRITE

text \<open>
  The two GPIO pins of \<open>ps2_gpio_config\<close>, and what the driver does to the outside
  world through the GPIO and kernel services: \<open>gpio_pin_set\<close> on a pin, and
  \<open>k_sleep(K_USEC(n))\<close>.
\<close>

datatype gpio_pin = SCL_PIN | SDA_PIN

datatype line_event = Gpio_Pin_Set gpio_pin int | K_Sleep_Usec nat

text \<open>
  \<open>struct ps2_gpio_data\<close>, followed by the environment the driver acts on.

  \<^item> \<open>callback_isr\<close> is a function pointer: \<open>None\<close> is \<open>NULL\<close>, \<open>Some f\<close> the
    listener \<open>f\<close>.
  \<^item> \<open>data_queue\<close> is a \<open>k_fifo\<close>: it links the data items it is given by address,
    so the model keeps the list of queued addresses, oldest first. The link to the next
    item is kept in the first word of each queued item (see below).
  \<^item> \<open>line_log\<close> records the calls of \<open>gpio_pin_set\<close> and \<open>k_sleep\<close> in order.
  \<^item> \<open>isr_calls\<close> records the calls of the listener: which one, with which byte.
  \<^item> \<open>byte_objs\<close> maps the address of every live object that the queue may point to,
    to what its first byte holds. An object with automatic storage duration is live from
    the entry to its function until the return; \<open>next_obj\<close> numbers such objects.
  \<^item> \<open>faults\<close> records, in order, every access that the C program leaves undefined or
    undetermined. A function that returns a value returns the fault in its place.
\<close>

text \<open>
  What the first byte of an object holds: a byte stored by the driver, or a part of the link
  word that the kernel keeps in the first word of an item handed to \<open>k_fifo_put\<close>.
\<close>

datatype obj_content = Byte_Val "8 word" | Fifo_Link

text \<open>
  Accesses whose result the program does not determine: a read or a write through the
  address of an object whose lifetime has ended (undefined behaviour), and a read of the
  kernel's link word as if it were the queued byte.
\<close>

datatype c_fault = Dangling_Pointer_Read nat | Dangling_Pointer_Write nat | Link_Word_Read nat

record ps2_gpio_data =
  callback_isr :: "nat option"
  callback_enabled :: bool
  data_queue :: "nat list"
  mode :: ps2_gpio_mode
  cur_read_byte :: "8 word"
  cur_read_pos :: int
  write_buffer :: "16 word"
  cur_write_pos :: int
  line_log :: "line_event list"
  isr_calls :: "(nat \<times> 8 word) list"
  byte_objs :: "nat \<Rightarrow> obj_content option"
  next_obj :: nat
  faults :: "c_fault list"

text \<open>The static initialiser of \<open>ps2_gpio_data\<close>, with the queue as \<open>k_fifo_init\<close> leaves it.\<close>

definition ps2_gpio_data_init :: ps2_gpio_data where
  "ps2_gpio_data_init =
     \<lparr> callback_isr = None, callback_enabled = False, data_queue = [],
       mode = PS2_GPIO_MODE_READ, cur_read_byte = 0, cur_read_pos = 0,
       write_buffer = 0, cur_write_pos = 0,
       line_log = [], isr_calls = [], byte_objs = (\<lambda>_. None), next_obj = 0,
       faults = [] \<rparr>"

subsection \<open>Kernel FIFO\<close>

text \<open>
  A \<open>k_fifo\<close> is an intrusive singly linked list: the first word of every queued item is
  reserved for the kernel and holds the link to the next item.

  \<^item> \<open>k_fifo_put\<close> initialises the link word of the new item and, when the queue is not
    empty, reads and updates the link word of the last item; then the item is the last of
    the queue. It returns the faults of these accesses, the objects and the queue.
  \<^item> \<open>k_fifo_get\<close> returns \<open>NULL\<close> when the queue is empty (at once with \<open>K_NO_WAIT\<close>,
    after the timeout otherwise, no producer running meanwhile); else it reads the link
    word of the first item to unlink it, and returns the item's address.
  An item whose lifetime has ended cannot be accessed: such an access is a fault.
\<close>

definition k_fifo_put ::
  "(nat \<Rightarrow> obj_content option) \<Rightarrow> nat list \<Rightarrow> nat
     \<Rightarrow> c_fault list \<times> (nat \<Rightarrow> obj_content option) \<times> nat list" where
  "k_fifo_put objs q p =
     (let (f1, objs1) = (case objs p of
                           None \<Rightarrow> ([Dangling_Pointer_Write p], objs)
                         | Some _ \<Rightarrow> ([], objs(p \<mapsto> Fifo_Link)))
      in if q = [] then (f1, objs1, [p])
         else (case objs1 (last q) of
                 None \<Rightarrow> (f1 @ [Dangling_Pointer_Read (last q)], objs1, q @ [p])
               | Some _ \<Rightarrow> (f1, objs1(last q \<mapsto> Fifo_Link), q @ [p])))"

definition k_fifo_get ::
  "(nat \<Rightarrow> obj_content option) \<Rightarrow> nat list \<Rightarrow> c_fault + nat option \<times> nat list" where
  "k_fifo_get objs q =
     (case q of
        [] \<Rightarrow> Inr (None, [])
      | p # q' \<Rightarrow>
          (case objs p of
             None \<Rightarrow> Inl (Dangling_Pointer_Read p)
           | Some _ \<Rightarrow> Inr (Some p, q')))"

subsection \<open>Helper functions\<close>

text \<open>
  \<open>ps2_gpio_set_scl\<close> calls \<open>gpio_pin_set(data->sda_gpio, config->sda_pin, state)\<close> and
  \<open>ps2_gpio_set_sda\<close> calls \<open>gpio_pin_set(data->scl_gpio, config->scl_pin, state)\<close>.
\<close>

definition ps2_gpio_set_scl :: "int \<Rightarrow> ps2_gpio_data \<Rightarrow> ps2_gpio_data" where
  "ps2_gpio_set_scl state s = s\<lparr>line_log := line_log s @ [Gpio_Pin_Set SDA_PIN state]\<rparr>"

definition ps2_gpio_set_sda :: "int \<Rightarrow> ps2_gpio_data \<Rightarrow> ps2_gpio_data" where
  "ps2_gpio_set_sda state s = s\<lparr>line_log := line_log s @ [Gpio_Pin_Set SCL_PIN state]\<rparr>"

definition k_sleep_usec :: "nat \<Rightarrow> ps2_gpio_data \<Rightarrow> ps2_gpio_data" where
  "k_sleep_usec n s = s\<lparr>line_log := line_log s @ [K_Sleep_Usec n]\<rparr>"

text \<open>\<open>ps2_gpio_send_byte\<close> logs "Not implemented" and returns -1.\<close>

definition ps2_gpio_send_byte :: "8 word \<Rightarrow> ps2_gpio_data \<Rightarrow> int \<times> ps2_gpio_data" where
  "ps2_gpio_send_byte byte s = (-1, s)"

definition ps2_gpio_send_cmd_resend :: "ps2_gpio_data \<Rightarrow> int \<times> ps2_gpio_data" where
  "ps2_gpio_send_cmd_resend s = (let cmd = 0xfe in ps2_gpio_send_byte cmd s)"

text \<open>
  The loop \<open>while(k_fifo_get(&data->data_queue, K_NO_WAIT) != NULL) {}\<close> on the queue:
  it ends when \<open>k_fifo_get\<close> returns \<open>NULL\<close>, or at the first fault.
\<close>

function empty_data_queue_loop ::
  "(nat \<Rightarrow> obj_content option) \<Rightarrow> nat list \<Rightarrow> c_fault option \<times> nat list" where
  "empty_data_queue_loop objs q =
     (case k_fifo_get objs q of
        Inl f \<Rightarrow> (Some f, q)
      | Inr (None, q') \<Rightarrow> (None, q')
      | Inr (Some p, q') \<Rightarrow> empty_data_queue_loop objs q')"
  by pat_completeness auto
termination
proof (relation "measure (\<lambda>(objs, q). length q)")
  show "wf (measure (\<lambda>(objs, q). length q))" by simp
next
  fix objs :: "nat \<Rightarrow> obj_content option" and q :: "nat list" and r a q' p
  assume "k_fifo_get objs q = Inr r" "(a, q') = r" "a = Some p"
  then show "((objs, q'), (objs, q)) \<in> measure (\<lambda>(objs, q). length q)"
    by (auto simp: k_fifo_get_def split: list.splits option.splits)
qed

declare empty_data_queue_loop.simps [simp del]

definition ps2_gpio_empty_data_queue :: "ps2_gpio_data \<Rightarrow> c_fault option \<times> ps2_gpio_data" where
  "ps2_gpio_empty_data_queue s =
     (case empty_data_queue_loop (byte_objs s) (data_queue s) of
        (None, q') \<Rightarrow> (None, s\<lparr>data_queue := q'\<rparr>)
      | (Some f, q') \<Rightarrow> (Some f, s\<lparr>data_queue := q', faults := faults s @ [f]\<rparr>))"

subsection \<open>Parity\<close>

text \<open>
  GCC's \<open>__builtin_parity (unsigned int x)\<close>: the number of 1-bits of \<open>x\<close> modulo 2.
  The \<open>uint8_t\<close> argument of the driver is converted to \<open>unsigned int\<close> (\<open>ucast\<close>).
\<close>

definition builtin_parity :: "32 word \<Rightarrow> int" where
  "builtin_parity x = int (length (filter (bit x) [0..<32]) mod 2)"

definition ps2_gpio_check_parity :: "8 word \<Rightarrow> int \<Rightarrow> bool" where
  "ps2_gpio_check_parity byte parity_bit_val =
     (let byte_parity = builtin_parity (ucast byte)
      in if byte_parity = parity_bit_val then False else True)"

definition ps2_gpio_get_byte_parity :: "8 word \<Rightarrow> bool" where
  "ps2_gpio_get_byte_parity byte =
     (let byte_parity = builtin_parity (ucast byte) in byte_parity = 0)"

text \<open>The number of set bits among the 8 data bits of a byte.\<close>

definition set_data_bits :: "8 word \<Rightarrow> nat" where
  "set_data_bits b = length (filter (bit b) [0..<8])"

subsection \<open>Reading PS/2 data\<close>

text \<open>
  \<open>ps2_gpio_process_received_byte(uint8_t byte)\<close>. The parameter \<open>byte\<close> is an object of
  the call: it is created at entry (address \<open>a\<close>) and its lifetime ends at the return.
  The listener is called with the value; \<open>k_fifo_put(&data->data_queue, &byte)\<close> is
  given the address of the parameter, whose first word becomes the kernel's link word.
\<close>

definition ps2_gpio_process_received_byte :: "8 word \<Rightarrow> ps2_gpio_data \<Rightarrow> ps2_gpio_data" where
  "ps2_gpio_process_received_byte byte s =
     (let a = next_obj s;
          s1 = s\<lparr>next_obj := a + 1, byte_objs := (byte_objs s)(a \<mapsto> Byte_Val byte)\<rparr>;
          s2 = (if callback_isr s1 \<noteq> None \<and> callback_enabled s1
                then s1\<lparr>isr_calls := isr_calls s1 @ [(the (callback_isr s1), byte)]\<rparr>
                else (case k_fifo_put (byte_objs s1) (data_queue s1) a of
                        (fs, objs', q') \<Rightarrow>
                          s1\<lparr>data_queue := q', byte_objs := objs', faults := faults s1 @ fs\<rparr>))
      in s2\<lparr>byte_objs := (byte_objs s2)(a := None)\<rparr>)"

definition ps2_gpio_abort_read :: "ps2_gpio_data \<Rightarrow> int \<times> ps2_gpio_data" where
  "ps2_gpio_abort_read s =
     (let (err, s1) = ps2_gpio_send_cmd_resend s
      in (err, s1\<lparr>cur_read_pos := 0, cur_read_byte := 0\<rparr>))"

text \<open>
  \<open>ps2_gpio_scl_interrupt_falling_read_bit\<close>; \<open>sda_val\<close> is what \<open>ps2_gpio_get_sda()\<close>
  returns at this edge (the value of \<open>ps2_gpio_get_scl()\<close> is only logged).
\<close>

definition ps2_gpio_scl_interrupt_falling_read_bit :: "int \<Rightarrow> ps2_gpio_data \<Rightarrow> ps2_gpio_data" where
  "ps2_gpio_scl_interrupt_falling_read_bit sda_val s =
     (if cur_read_pos s = PS2_GPIO_POS_START then
        (if sda_val \<noteq> 0 then snd (ps2_gpio_abort_read s)
         else s\<lparr>cur_read_pos := cur_read_pos s + 1\<rparr>)
      else if cur_read_pos s = PS2_GPIO_POS_PARITY then
        (if ps2_gpio_check_parity (cur_read_byte s) sda_val \<noteq> True then snd (ps2_gpio_abort_read s)
         else s\<lparr>cur_read_pos := cur_read_pos s + 1\<rparr>)
      else if cur_read_pos s = PS2_GPIO_POS_STOP then
        (if sda_val \<noteq> 1 then snd (ps2_gpio_abort_read s)
         else (ps2_gpio_process_received_byte (cur_read_byte s) s)
                \<lparr>cur_read_pos := 0, cur_read_byte := 0\<rparr>)
      else
        (let bit_pos = cur_read_pos s - 1
         in s\<lparr>cur_read_byte := PS2_GPIO_SET_BIT (cur_read_byte s) sda_val bit_pos,
              cur_read_pos := cur_read_pos s + 1\<rparr>))"

subsection \<open>Writing PS/2 data\<close>

definition ps2_gpio_write_byte :: "8 word \<Rightarrow> ps2_gpio_data \<Rightarrow> ps2_gpio_data" where
  "ps2_gpio_write_byte byte s =
     (let byte_parity = ps2_gpio_get_byte_parity byte;
          b = uint byte;
          wb0 = (0 :: 16 word);
          wb1 = PS2_GPIO_SET_BIT wb0 0 0;
          wb2 = PS2_GPIO_SET_BIT wb1 (PS2_GPIO_GET_BIT b 0) 1;
          wb3 = PS2_GPIO_SET_BIT wb2 (PS2_GPIO_GET_BIT b 1) 2;
          wb4 = PS2_GPIO_SET_BIT wb3 (PS2_GPIO_GET_BIT b 2) 3;
          wb5 = PS2_GPIO_SET_BIT wb4 (PS2_GPIO_GET_BIT b 3) 4;
          wb6 = PS2_GPIO_SET_BIT wb5 (PS2_GPIO_GET_BIT b 4) 5;
          wb7 = PS2_GPIO_SET_BIT wb6 (PS2_GPIO_GET_BIT b 5) 6;
          wb8 = PS2_GPIO_SET_BIT wb7 (PS2_GPIO_GET_BIT b 6) 7;
          wb9 = PS2_GPIO_SET_BIT wb8 (PS2_GPIO_GET_BIT b 7) 8;
          wb10 = PS2_GPIO_SET_BIT wb9 (of_bool byte_parity) 9;
          wb11 = PS2_GPIO_SET_BIT wb10 1 10;
          s1 = s\<lparr>write_buffer := wb11, cur_write_pos := 0\<rparr>;
          s2 = ps2_gpio_set_scl 0 s1;
          s3 = k_sleep_usec 110 s2;
          s4 = s3\<lparr>mode := PS2_GPIO_MODE_WRITE, cur_read_byte := 0, cur_read_pos := 0\<rparr>;
          s5 = ps2_gpio_set_sda (PS2_GPIO_GET_BIT (uint (write_buffer s4)) 0) s4;
          s6 = s5\<lparr>cur_write_pos := cur_write_pos s5 + 1\<rparr>
      in ps2_gpio_set_scl 1 s6)"

definition ps2_gpio_scl_interrupt_falling_write_bit :: "ps2_gpio_data \<Rightarrow> ps2_gpio_data" where
  "ps2_gpio_scl_interrupt_falling_write_bit s =
     (let data_bit = PS2_GPIO_GET_BIT (uint (write_buffer s)) (cur_write_pos s);
          s1 = ps2_gpio_set_sda data_bit s
      in s1\<lparr>cur_write_pos := cur_write_pos s1 + 1\<rparr>)"

text \<open>\<open>ack_val\<close> is what \<open>ps2_gpio_get_sda()\<close> returns; it is only logged.\<close>

definition ps2_gpio_scl_interrupt_rising_check_write_ack :: "int \<Rightarrow> ps2_gpio_data \<Rightarrow> ps2_gpio_data" where
  "ps2_gpio_scl_interrupt_rising_check_write_ack ack_val s =
     s\<lparr>mode := PS2_GPIO_MODE_READ, write_buffer := 0, cur_write_pos := 0\<rparr>"

subsection \<open>Interrupt handlers\<close>

definition ps2_gpio_scl_interrupt_falling_handler :: "int \<Rightarrow> ps2_gpio_data \<Rightarrow> ps2_gpio_data" where
  "ps2_gpio_scl_interrupt_falling_handler sda_val s =
     (if mode s = PS2_GPIO_MODE_READ then ps2_gpio_scl_interrupt_falling_read_bit sda_val s
      else ps2_gpio_scl_interrupt_falling_write_bit s)"

definition ps2_gpio_scl_interrupt_rising_handler :: "int \<Rightarrow> ps2_gpio_data \<Rightarrow> ps2_gpio_data" where
  "ps2_gpio_scl_interrupt_rising_handler sda_val s =
     (if cur_write_pos s = PS2_GPIO_POS_ACK
      then ps2_gpio_scl_interrupt_rising_check_write_ack sda_val s
      else s)"

subsection \<open>Zephyr PS/2 driver interface\<close>

definition ps2_gpio_enable_callback :: "ps2_gpio_data \<Rightarrow> (c_fault + int) \<times> ps2_gpio_data" where
  "ps2_gpio_enable_callback s =
     (let s1 = s\<lparr>callback_enabled := True\<rparr>
      in case ps2_gpio_empty_data_queue s1 of
           (Some f, s2) \<Rightarrow> (Inl f, s2)
         | (None, s2) \<Rightarrow> (Inr 0, s2))"

definition ps2_gpio_disable_callback :: "ps2_gpio_data \<Rightarrow> (c_fault + int) \<times> ps2_gpio_data" where
  "ps2_gpio_disable_callback s =
     (case ps2_gpio_empty_data_queue s of
        (Some f, s1) \<Rightarrow> (Inl f, s1)
      | (None, s1) \<Rightarrow> (let s2 = s1\<lparr>callback_enabled := False\<rparr> in (Inr 0, s2)))"

definition ps2_gpio_configure ::
  "nat option \<Rightarrow> ps2_gpio_data \<Rightarrow> (c_fault + int) \<times> ps2_gpio_data" where
  "ps2_gpio_configure isr s =
     (if isr = None then (Inr (- EINVAL), s)
      else (let s1 = s\<lparr>callback_isr := isr\<rparr>
            in case ps2_gpio_enable_callback s1 of
                 (Inl f, s2) \<Rightarrow> (Inl f, s2)
               | (Inr _, s2) \<Rightarrow> (Inr 0, s2)))"

text \<open>
  \<open>ps2_gpio_read\<close> returns the status and what it stored to \<open>*value\<close> (\<open>None\<close>: nothing
  stored). After \<open>k_fifo_get\<close> it reads \<open>*queue_byte\<close>, the first byte of the item.
\<close>

definition ps2_gpio_read :: "ps2_gpio_data \<Rightarrow> (c_fault + int \<times> 8 word option) \<times> ps2_gpio_data" where
  "ps2_gpio_read s =
     (case k_fifo_get (byte_objs s) (data_queue s) of
        Inl f \<Rightarrow> (Inl f, s\<lparr>faults := faults s @ [f]\<rparr>)
      | Inr (None, q') \<Rightarrow> (Inr (- ETIMEDOUT, None), s\<lparr>data_queue := q'\<rparr>)
      | Inr (Some queue_byte, q') \<Rightarrow>
          (case byte_objs s queue_byte of
             None \<Rightarrow>
               (Inl (Dangling_Pointer_Read queue_byte),
                s\<lparr>data_queue := q', faults := faults s @ [Dangling_Pointer_Read queue_byte]\<rparr>)
           | Some Fifo_Link \<Rightarrow>
               (Inl (Link_Word_Read queue_byte),
                s\<lparr>data_queue := q', faults := faults s @ [Link_Word_Read queue_byte]\<rparr>)
           | Some (Byte_Val v) \<Rightarrow> (Inr (0, Some v), s\<lparr>data_queue := q'\<rparr>)))"

text \<open>\<open>ps2_gpio_write\<close> logs "Not implemented" and returns 0.\<close>

definition ps2_gpio_write :: "8 word \<Rightarrow> ps2_gpio_data \<Rightarrow> int \<times> ps2_gpio_data" where
  "ps2_gpio_write v s = (0, s)"

subsection \<open>Running the driver\<close>

text \<open>
  A sequence of falling clock edges, each with the level sampled on the data line, handled
  in order by \<open>ps2_gpio_scl_interrupt_falling_handler\<close>.
\<close>

definition feed_falling_edges :: "int list \<Rightarrow> ps2_gpio_data \<Rightarrow> ps2_gpio_data" where
  "feed_falling_edges sda_vals s =
     foldl (\<lambda>s v. ps2_gpio_scl_interrupt_falling_handler v s) s sda_vals"

text \<open>
  The encoded frame of a byte: the 11 bits of the write buffer that
  \<open>ps2_gpio_write_byte\<close> builds, read with \<open>PS2_GPIO_GET_BIT\<close> from position 0 to 10.
\<close>

definition ps2_frame_bits :: "8 word \<Rightarrow> int list" where
  "ps2_frame_bits byte =
     map (\<lambda>i. PS2_GPIO_GET_BIT (uint (write_buffer (ps2_gpio_write_byte byte ps2_gpio_data_init))) (int i))
       [0..<11]"

text \<open>
  What can happen to the driver: a falling or a rising clock edge (with the level sampled on
  the data line), a write transaction, an abort of the reception, a delivery, and the
  operations of \<open>ps2_gpio_driver_api\<close>.
\<close>

datatype ps2_event =
    Falling_Edge int
  | Rising_Edge int
  | Write_Byte "8 word"
  | Abort_Read
  | Deliver "8 word"
  | Api_Configure "nat option"
  | Api_Read
  | Api_Write "8 word"
  | Api_Enable_Callback
  | Api_Disable_Callback

fun ps2_step :: "ps2_event \<Rightarrow> ps2_gpio_data \<Rightarrow> ps2_gpio_data" where
  "ps2_step (Falling_Edge v) s = ps2_gpio_scl_interrupt_falling_handler v s"
| "ps2_step (Rising_Edge v) s = ps2_gpio_scl_interrupt_rising_handler v s"
| "ps2_step (Write_Byte b) s = ps2_gpio_write_byte b s"
| "ps2_step Abort_Read s = snd (ps2_gpio_abort_read s)"
| "ps2_step (Deliver b) s = ps2_gpio_process_received_byte b s"
| "ps2_step (Api_Configure isr) s = snd (ps2_gpio_configure isr s)"
| "ps2_step Api_Read s = snd (ps2_gpio_read s)"
| "ps2_step (Api_Write b) s = snd (ps2_gpio_write b s)"
| "ps2_step Api_Enable_Callback s = snd (ps2_gpio_enable_callback s)"
| "ps2_step Api_Disable_Callback s = snd (ps2_gpio_disable_callback s)"

inductive ps2_reachable :: "ps2_gpio_data \<Rightarrow> bool" where
  reach_init: "ps2_reachable ps2_gpio_data_init"
| reach_step: "ps2_reachable s \<Longrightarrow> ps2_reachable (ps2_step e s)"

text \<open>
  The part of the state that a write transaction acts on: the line, the transfer mode, the
  write buffer and position, and the read accumulator that the bus seize clears.
\<close>

definition transmit_view ::
  "ps2_gpio_data \<Rightarrow> line_event list \<times> ps2_gpio_mode \<times> 16 word \<times> int \<times> 8 word \<times> int" where
  "transmit_view s =
     (line_log s, mode s, write_buffer s, cur_write_pos s, cur_read_byte s, cur_read_pos s)"

section \<open>Bit codec\<close>

lemma upt_11: "[0..<11] = [0,1,2,3,4,5,6,7,8,9,10]"
  by (simp add: upt_rec)

lemma upt_8: "[0..<8] = [0,1,2,3,4,5,6,7]"
  by (simp add: upt_rec)

lemma filter_ucast_bits:
  "filter (bit (ucast (b :: 8 word) :: 32 word)) [0..<32] = filter (bit b) [0..<8]"
proof -
  have parts: "[0..<32] = [0..<8] @ [8..<32]"
    using upt_add_eq_append [of 0 8 24] by simp
  have hi: "filter (bit (ucast b :: 32 word)) [8..<32] = []"
    by (auto simp: filter_empty_conv bit_ucast_iff dest: bit_imp_le_length)
  have lo: "filter (bit (ucast b :: 32 word)) [0..<8] = filter (bit b) [0..<8]"
    by (rule filter_cong) (auto simp: bit_ucast_iff)
  show ?thesis by (simp only: parts filter_append hi lo append_Nil2)
qed

lemma builtin_parity_ucast:
  "builtin_parity (ucast (b :: 8 word)) = int (set_data_bits b mod 2)"
  by (simp only: builtin_parity_def set_data_bits_def filter_ucast_bits)

lemma get_byte_parity_even: "ps2_gpio_get_byte_parity b \<longleftrightarrow> even (set_data_bits b)"
  by (simp add: ps2_gpio_get_byte_parity_def builtin_parity_ucast Let_def even_iff_mod_2_eq_zero)

lemma check_parity_own: "ps2_gpio_check_parity b (of_bool (ps2_gpio_get_byte_parity b))"
  by (simp add: ps2_gpio_check_parity_def ps2_gpio_get_byte_parity_def Let_def)

text \<open>
  C3. For every byte \<open>b\<close>, the parity bit computed for the frame of \<open>b\<close> is 1 exactly when
  \<open>b\<close> has an even number of set bits, so the 8 data bits and the parity bit together
  have an odd number of set bits; and for a parity bit \<open>p\<close> (0 or 1),
  \<open>ps2_gpio_check_parity b p\<close> is true exactly when \<open>p\<close> is that computed bit.
\<close>

theorem C3_odd_parity:
  "(ps2_gpio_get_byte_parity b \<longleftrightarrow> even (set_data_bits b))
   \<and> odd (set_data_bits b + of_bool (ps2_gpio_get_byte_parity b))
   \<and> (p \<in> {0, 1} \<longrightarrow>
        (ps2_gpio_check_parity b p \<longleftrightarrow> p = of_bool (ps2_gpio_get_byte_parity b)))"
  by (auto simp: ps2_gpio_get_byte_parity_def ps2_gpio_check_parity_def builtin_parity_ucast
      Let_def even_iff_mod_2_eq_zero)

theorem C3_odd_parity_witness:
  "ps2_gpio_get_byte_parity 0x1C = False \<and> set_data_bits 0x1C = 3
   \<and> (0::int) \<in> {0, 1} \<and> ps2_gpio_check_parity 0x1C 0
   \<and> (1::int) \<in> {0, 1} \<and> \<not> ps2_gpio_check_parity 0x1C 1"
proof -
  have n: "set_data_bits 0x1C = 3"
    by (simp add: set_data_bits_def upt_8)
  show ?thesis
    using C3_odd_parity [of "0x1C" 0] C3_odd_parity [of "0x1C" 1] n by simp
qed

section \<open>Receive state machine\<close>

lemma get_bit_int: "0 \<le> i \<Longrightarrow> PS2_GPIO_GET_BIT x i = of_bool (bit x (nat i))"
  by (simp add: PS2_GPIO_GET_BIT_def and_one_eq mod_2_eq_odd bit_iff_odd_drop_bit)

lemma get_bit_uint:
  "0 \<le> i \<Longrightarrow> PS2_GPIO_GET_BIT (uint (w :: 'a::len word)) i = of_bool (bit w (nat i))"
  by (auto simp: get_bit_int bit_uint_iff dest: bit_imp_le_length)

lemma bit_set_bit:
  "0 \<le> i \<Longrightarrow>
   bit (PS2_GPIO_SET_BIT (w :: 'a::len word) (of_bool c) i) k
     \<longleftrightarrow> bit w k \<or> (c \<and> k = nat i \<and> nat i < LENGTH('a))"
  by (cases c)
    (auto simp: PS2_GPIO_SET_BIT_def bit_or_iff bit_push_bit_iff bit_word_of_int_iff bit_exp_iff
      dest: bit_imp_le_length)

lemma bit_set_bit_0: "bit (PS2_GPIO_SET_BIT (w :: 'a::len word) 0 i) k \<longleftrightarrow> bit w k"
  by (simp add: PS2_GPIO_SET_BIT_def)

lemma bit_set_bit_1:
  "0 \<le> i \<Longrightarrow>
   bit (PS2_GPIO_SET_BIT (w :: 'a::len word) 1 i) k \<longleftrightarrow> bit w k \<or> (k = nat i \<and> nat i < LENGTH('a))"
  using bit_set_bit [of i w True k] by simp

lemma write_buffer_bits:
  "bit (write_buffer (ps2_gpio_write_byte b s)) k \<longleftrightarrow>
     (1 \<le> k \<and> k \<le> 8 \<and> bit b (k - 1)) \<or> (k = 9 \<and> ps2_gpio_get_byte_parity b) \<or> k = 10"
proof -
  have "k = 0 \<or> k = 1 \<or> k = 2 \<or> k = 3 \<or> k = 4 \<or> k = 5 \<or> k = 6 \<or> k = 7 \<or> k = 8 \<or> k = 9
      \<or> k = 10 \<or> 10 < k"
    by arith
  then show ?thesis
    by (elim disjE)
      (simp_all add: ps2_gpio_write_byte_def Let_def ps2_gpio_set_scl_def ps2_gpio_set_sda_def
        k_sleep_usec_def get_bit_uint bit_set_bit bit_set_bit_0 bit_set_bit_1)
qed

lemma ps2_frame_bits_eq:
  "ps2_frame_bits b =
     [0] @ map (\<lambda>i. of_bool (bit b i)) [0..<8] @ [of_bool (ps2_gpio_get_byte_parity b), 1]"
  by (simp add: ps2_frame_bits_def upt_11 upt_8 get_bit_uint write_buffer_bits)

lemma read_step_start:
  "mode s = PS2_GPIO_MODE_READ \<Longrightarrow> cur_read_pos s = 0 \<Longrightarrow>
   ps2_gpio_scl_interrupt_falling_handler 0 s = s\<lparr>cur_read_pos := 1\<rparr>"
  by (simp add: ps2_gpio_scl_interrupt_falling_handler_def
      ps2_gpio_scl_interrupt_falling_read_bit_def PS2_GPIO_POS_START_def)

lemma read_upd_data:
  "mode s = PS2_GPIO_MODE_READ \<Longrightarrow> 1 \<le> p \<Longrightarrow> p \<le> 8 \<Longrightarrow>
   ps2_gpio_scl_interrupt_falling_handler v (s\<lparr>cur_read_byte := x, cur_read_pos := p\<rparr>) =
     s\<lparr>cur_read_byte := PS2_GPIO_SET_BIT x v (p - 1), cur_read_pos := p + 1\<rparr>"
  by (simp add: ps2_gpio_scl_interrupt_falling_handler_def
      ps2_gpio_scl_interrupt_falling_read_bit_def PS2_GPIO_POS_START_def PS2_GPIO_POS_PARITY_def
      PS2_GPIO_POS_STOP_def Let_def)

lemma read_upd_parity:
  "mode s = PS2_GPIO_MODE_READ \<Longrightarrow> ps2_gpio_check_parity x v \<Longrightarrow>
   ps2_gpio_scl_interrupt_falling_handler v (s\<lparr>cur_read_byte := x, cur_read_pos := 9\<rparr>) =
     s\<lparr>cur_read_byte := x, cur_read_pos := 10\<rparr>"
  by (simp add: ps2_gpio_scl_interrupt_falling_handler_def
      ps2_gpio_scl_interrupt_falling_read_bit_def PS2_GPIO_POS_START_def PS2_GPIO_POS_PARITY_def
      PS2_GPIO_POS_STOP_def)

lemma read_upd_stop:
  "mode s = PS2_GPIO_MODE_READ \<Longrightarrow>
   ps2_gpio_scl_interrupt_falling_handler 1 (s\<lparr>cur_read_byte := x, cur_read_pos := 10\<rparr>) =
     (ps2_gpio_process_received_byte x s)\<lparr>cur_read_pos := 0, cur_read_byte := 0\<rparr>"
  by (simp add: ps2_gpio_scl_interrupt_falling_handler_def
      ps2_gpio_scl_interrupt_falling_read_bit_def PS2_GPIO_POS_START_def PS2_GPIO_POS_PARITY_def
      PS2_GPIO_POS_STOP_def ps2_gpio_process_received_byte_def Let_def split: prod.splits)

lemma assemble_byte:
  "PS2_GPIO_SET_BIT (PS2_GPIO_SET_BIT (PS2_GPIO_SET_BIT (PS2_GPIO_SET_BIT
     (PS2_GPIO_SET_BIT (PS2_GPIO_SET_BIT (PS2_GPIO_SET_BIT (PS2_GPIO_SET_BIT (0 :: 8 word)
       (of_bool (bit b 0)) 0) (of_bool (bit b 1)) 1) (of_bool (bit b 2)) 2) (of_bool (bit b 3)) 3)
       (of_bool (bit b 4)) 4) (of_bool (bit b 5)) 5) (of_bool (bit b 6)) 6) (of_bool (bit b 7)) 7 = b"
  (is "?acc = b")
proof (rule bit_word_eqI)
  fix k :: nat
  assume "k < LENGTH(8)"
  then have "k = 0 \<or> k = 1 \<or> k = 2 \<or> k = 3 \<or> k = 4 \<or> k = 5 \<or> k = 6 \<or> k = 7"
    by auto
  then show "bit ?acc k = bit b k"
    by (elim disjE) (simp_all add: bit_set_bit)
qed

lemma feed_frame:
  assumes m: "mode s = PS2_GPIO_MODE_READ" and p: "cur_read_pos s = 0" and y: "cur_read_byte s = 0"
  shows "feed_falling_edges (ps2_frame_bits b) s
           = (ps2_gpio_process_received_byte b s)\<lparr>cur_read_pos := 0, cur_read_byte := 0\<rparr>"
proof -
  have s1: "ps2_gpio_scl_interrupt_falling_handler 0 s = s\<lparr>cur_read_byte := 0, cur_read_pos := 1\<rparr>"
    using m p y by (simp add: read_step_start)
  show ?thesis
    unfolding feed_falling_edges_def ps2_frame_bits_eq upt_8
    by (simp add: s1 read_upd_data [OF m] assemble_byte [unfolded One_nat_def]
          read_upd_parity [OF m] check_parity_own read_upd_stop [OF m]
        split del: split_of_bool)
qed

text \<open>
  C1. For every byte \<open>b\<close>, from a receive state in Read mode with read position 0 and
  accumulator 0, the 11 bits of the encoded frame of \<open>b\<close> (start bit 0, the data bits of
  \<open>b\<close> from bit 0 to bit 7, the odd parity bit, stop bit 1), fed one per falling clock edge,
  have the effect of exactly one call of \<open>ps2_gpio_process_received_byte\<close>, with the
  byte \<open>b\<close>: one more listener call or queue entry, and the read position and the
  accumulator back at 0.
\<close>

theorem C1_receive_roundtrip:
  assumes "mode s = PS2_GPIO_MODE_READ" and "cur_read_pos s = 0" and "cur_read_byte s = 0"
  shows "ps2_frame_bits b =
           [0] @ map (\<lambda>i. of_bool (bit b i)) [0..<8] @ [of_bool (even (set_data_bits b)), 1]
         \<and> feed_falling_edges (ps2_frame_bits b) s = ps2_gpio_process_received_byte b s
         \<and> length (isr_calls (feed_falling_edges (ps2_frame_bits b) s))
             + length (data_queue (feed_falling_edges (ps2_frame_bits b) s))
           = length (isr_calls s) + length (data_queue s) + 1
         \<and> cur_read_pos (feed_falling_edges (ps2_frame_bits b) s) = 0
         \<and> cur_read_byte (feed_falling_edges (ps2_frame_bits b) s) = 0
         \<and> mode (feed_falling_edges (ps2_frame_bits b) s) = PS2_GPIO_MODE_READ"
proof -
  have frame: "ps2_frame_bits b =
      [0] @ map (\<lambda>i. of_bool (bit b i)) [0..<8] @ [of_bool (even (set_data_bits b)), 1]"
    by (simp only: ps2_frame_bits_eq get_byte_parity_even)
  have run: "feed_falling_edges (ps2_frame_bits b) s = ps2_gpio_process_received_byte b s"
    using assms
    by (simp add: feed_frame ps2_gpio_process_received_byte_def Let_def split: prod.splits)
  have rest: "length (isr_calls (ps2_gpio_process_received_byte b s))
             + length (data_queue (ps2_gpio_process_received_byte b s))
           = length (isr_calls s) + length (data_queue s) + 1"
     "cur_read_pos (ps2_gpio_process_received_byte b s) = 0"
     "cur_read_byte (ps2_gpio_process_received_byte b s) = 0"
     "mode (ps2_gpio_process_received_byte b s) = PS2_GPIO_MODE_READ"
    using assms
    by (simp_all add: ps2_gpio_process_received_byte_def Let_def k_fifo_put_def
        split: prod.splits option.splits)
  show ?thesis
    by (intro conjI; (rule frame | rule run | simp only: run rest))
qed

theorem C1_receive_roundtrip_witness:
  "mode ps2_gpio_data_init = PS2_GPIO_MODE_READ \<and> cur_read_pos ps2_gpio_data_init = 0
   \<and> cur_read_byte ps2_gpio_data_init = 0
   \<and> ps2_frame_bits 0x1C = [0, 0, 0, 1, 1, 1, 0, 0, 0, 0, 1]
   \<and> feed_falling_edges [0, 0, 0, 1, 1, 1, 0, 0, 0, 0, 1] ps2_gpio_data_init
       = ps2_gpio_process_received_byte 0x1C ps2_gpio_data_init"
proof -
  have n: "set_data_bits 0x1C = 3"
    by (simp add: set_data_bits_def upt_8)
  have i: "mode ps2_gpio_data_init = PS2_GPIO_MODE_READ" "cur_read_pos ps2_gpio_data_init = 0"
    "cur_read_byte ps2_gpio_data_init = 0"
    by (simp_all add: ps2_gpio_data_init_def)
  have f: "ps2_frame_bits 0x1C = [0, 0, 0, 1, 1, 1, 0, 0, 0, 0, 1]"
    using C1_receive_roundtrip [OF i, of "0x1C"] by (simp add: n upt_8)
  have "feed_falling_edges (ps2_frame_bits 0x1C) ps2_gpio_data_init
          = ps2_gpio_process_received_byte 0x1C ps2_gpio_data_init"
    using C1_receive_roundtrip [OF i, of "0x1C"] by blast
  then have r: "feed_falling_edges [0, 0, 0, 1, 1, 1, 0, 0, 0, 0, 1] ps2_gpio_data_init
          = ps2_gpio_process_received_byte 0x1C ps2_gpio_data_init"
    by (simp only: f)
  show ?thesis
    by (intro conjI i f r)
qed

lemmas pos_defs =
  PS2_GPIO_POS_START_def PS2_GPIO_POS_PARITY_def PS2_GPIO_POS_STOP_def PS2_GPIO_POS_ACK_def

lemma abort_read_eq:
  "ps2_gpio_abort_read s = (-1, s\<lparr>cur_read_pos := 0, cur_read_byte := 0\<rparr>)"
  by (simp add: ps2_gpio_abort_read_def ps2_gpio_send_cmd_resend_def ps2_gpio_send_byte_def Let_def)

text \<open>
  C4. At a falling clock edge handled in Read mode: if the read position is 0 and the sampled
  bit is not 0, or the position is 9 and the sampled bit fails the parity check against the
  accumulated byte, or the position is 10 and the sampled bit is not 1, the reception is
  aborted: nothing is delivered (no listener call, no queue entry), and the read position
  and the accumulator are reset to 0.
\<close>

theorem C4_receive_abort:
  assumes "mode s = PS2_GPIO_MODE_READ"
    and "(cur_read_pos s = 0 \<and> sda_val \<noteq> 0)
       \<or> (cur_read_pos s = 9 \<and> \<not> ps2_gpio_check_parity (cur_read_byte s) sda_val)
       \<or> (cur_read_pos s = 10 \<and> sda_val \<noteq> 1)"
  shows "ps2_gpio_scl_interrupt_falling_handler sda_val s
           = s\<lparr>cur_read_pos := 0, cur_read_byte := 0\<rparr>
       \<and> isr_calls (ps2_gpio_scl_interrupt_falling_handler sda_val s) = isr_calls s
       \<and> data_queue (ps2_gpio_scl_interrupt_falling_handler sda_val s) = data_queue s
       \<and> cur_read_pos (ps2_gpio_scl_interrupt_falling_handler sda_val s) = 0
       \<and> cur_read_byte (ps2_gpio_scl_interrupt_falling_handler sda_val s) = 0"
proof -
  have "ps2_gpio_scl_interrupt_falling_handler sda_val s
          = s\<lparr>cur_read_pos := 0, cur_read_byte := 0\<rparr>"
    using assms
    by (auto simp: ps2_gpio_scl_interrupt_falling_handler_def
        ps2_gpio_scl_interrupt_falling_read_bit_def pos_defs abort_read_eq)
  then show ?thesis by simp
qed

theorem C4_receive_abort_witness:
  "mode (ps2_gpio_data_init\<lparr>cur_read_byte := 0x1C, cur_read_pos := 10\<rparr>) = PS2_GPIO_MODE_READ
   \<and> cur_read_pos (ps2_gpio_data_init\<lparr>cur_read_byte := 0x1C, cur_read_pos := 10\<rparr>) = 10
   \<and> (0::int) \<noteq> 1
   \<and> ps2_gpio_scl_interrupt_falling_handler 0
        (ps2_gpio_data_init\<lparr>cur_read_byte := 0x1C, cur_read_pos := 10\<rparr>)
       = ps2_gpio_data_init"
  using C4_receive_abort [of "ps2_gpio_data_init\<lparr>cur_read_byte := 0x1C, cur_read_pos := 10\<rparr>" 0]
  by (simp add: ps2_gpio_data_init_def)

section \<open>Abort policy\<close>

text \<open>
  C5, as the specification states it, fails: aborting the reception in the initial state
  starts no write transaction. No line is driven, the mode stays Read and the write buffer
  stays 0, whereas the write transaction for 0xFE drives the lines and enters Write mode.
\<close>

theorem C5_no_resend_transaction:
  "line_log (snd (ps2_gpio_abort_read ps2_gpio_data_init)) = []
   \<and> mode (snd (ps2_gpio_abort_read ps2_gpio_data_init)) = PS2_GPIO_MODE_READ
   \<and> write_buffer (snd (ps2_gpio_abort_read ps2_gpio_data_init)) = 0
   \<and> line_log (ps2_gpio_write_byte 0xFE ps2_gpio_data_init) \<noteq> []
   \<and> mode (ps2_gpio_write_byte 0xFE ps2_gpio_data_init) = PS2_GPIO_MODE_WRITE"
  by (simp add: abort_read_eq ps2_gpio_data_init_def ps2_gpio_write_byte_def Let_def
      ps2_gpio_set_scl_def ps2_gpio_set_sda_def k_sleep_usec_def)

text \<open>
  C5, amended. Every receive abort calls the resend helper, which passes the command byte
  0xFE to \<open>ps2_gpio_send_byte\<close>; that function is not implemented: it changes nothing and
  returns -1. The abort then resets the read position and the accumulator to 0 and leaves
  everything else as it was (no line driven, no write transaction, nothing delivered to
  the consumer), returning the -1.
\<close>

theorem C5_abort_resend_stub:
  "ps2_gpio_send_cmd_resend s = ps2_gpio_send_byte 0xFE s
   \<and> ps2_gpio_send_byte 0xFE s = (-1, s)
   \<and> ps2_gpio_abort_read s = (-1, s\<lparr>cur_read_pos := 0, cur_read_byte := 0\<rparr>)"
  by (simp add: abort_read_eq ps2_gpio_send_cmd_resend_def ps2_gpio_send_byte_def)

section \<open>Transmit state machine\<close>

lemma write_byte_FE:
  "ps2_gpio_write_byte 0xFE ps2_gpio_data_init =
     ps2_gpio_data_init\<lparr>mode := PS2_GPIO_MODE_WRITE, write_buffer := 0x5FC, cur_write_pos := 1,
       line_log := [Gpio_Pin_Set SDA_PIN 0, K_Sleep_Usec 110, Gpio_Pin_Set SCL_PIN 0,
                    Gpio_Pin_Set SDA_PIN 1]\<rparr>"
  by (simp add: ps2_gpio_write_byte_def Let_def ps2_gpio_set_scl_def ps2_gpio_set_sda_def
      k_sleep_usec_def ps2_gpio_data_init_def PS2_GPIO_SET_BIT_def PS2_GPIO_GET_BIT_def
      get_byte_parity_even set_data_bits_def upt_8)

lemma write_step:
  "mode s = PS2_GPIO_MODE_WRITE \<Longrightarrow>
   ps2_gpio_scl_interrupt_falling_handler v s =
     s\<lparr>line_log := line_log s
          @ [Gpio_Pin_Set SCL_PIN (PS2_GPIO_GET_BIT (uint (write_buffer s)) (cur_write_pos s))],
       cur_write_pos := cur_write_pos s + 1\<rparr>"
  by (simp add: ps2_gpio_scl_interrupt_falling_handler_def
      ps2_gpio_scl_interrupt_falling_write_bit_def ps2_gpio_set_sda_def Let_def)

lemma write_byte_state:
  "ps2_gpio_write_byte b s =
     s\<lparr>mode := PS2_GPIO_MODE_WRITE, cur_read_byte := 0, cur_read_pos := 0,
       write_buffer := write_buffer (ps2_gpio_write_byte b s), cur_write_pos := 1,
       line_log := line_log s @ [Gpio_Pin_Set SDA_PIN 0, K_Sleep_Usec 110, Gpio_Pin_Set SCL_PIN 0,
                    Gpio_Pin_Set SDA_PIN 1]\<rparr>"
  by (simp add: ps2_gpio_write_byte_def Let_def ps2_gpio_set_scl_def ps2_gpio_set_sda_def
      k_sleep_usec_def get_bit_uint bit_set_bit bit_set_bit_0 bit_set_bit_1)

lemma write_upd_step:
  "ps2_gpio_scl_interrupt_falling_handler v
     (s\<lparr>mode := PS2_GPIO_MODE_WRITE, cur_read_byte := 0, cur_read_pos := 0,
        write_buffer := w, cur_write_pos := p, line_log := l\<rparr>)
   = s\<lparr>mode := PS2_GPIO_MODE_WRITE, cur_read_byte := 0, cur_read_pos := 0,
        write_buffer := w, cur_write_pos := p + 1,
        line_log := l @ [Gpio_Pin_Set SCL_PIN (PS2_GPIO_GET_BIT (uint w) p)]\<rparr>"
  by (simp add: write_step)

text \<open>
  For every byte and state: the write transaction followed by 10 falling edges (whatever is
  sampled) brings the write position to 11, having called \<open>gpio_pin_set\<close> with the bits 1 to 10
  of the frame in order, each on the pin that \<open>ps2_gpio_set_sda\<close> drives.
\<close>

lemma write_transaction_state:
  assumes "length vs = 10"
  shows "feed_falling_edges vs (ps2_gpio_write_byte b s) =
     s\<lparr>mode := PS2_GPIO_MODE_WRITE, cur_read_byte := 0, cur_read_pos := 0,
       write_buffer := write_buffer (ps2_gpio_write_byte b s), cur_write_pos := 11,
       line_log := line_log s @ [Gpio_Pin_Set SDA_PIN 0, K_Sleep_Usec 110, Gpio_Pin_Set SCL_PIN 0,
                    Gpio_Pin_Set SDA_PIN 1] @ map (Gpio_Pin_Set SCL_PIN) (tl (ps2_frame_bits b))\<rparr>"
proof -
  obtain v1 v2 v3 v4 v5 v6 v7 v8 v9 v10 where vs: "vs = [v1, v2, v3, v4, v5, v6, v7, v8, v9, v10]"
    using assms by (auto simp: length_Suc_conv eval_nat_numeral)
  show ?thesis
    unfolding vs feed_falling_edges_def
    apply (subst write_byte_state)
    apply (simp add: write_upd_step ps2_frame_bits_eq upt_8 get_bit_uint write_buffer_bits
        split del: split_of_bool)
    done
qed

lemma rising_edge_ack:
  "cur_write_pos s = 11 \<Longrightarrow>
   ps2_gpio_scl_interrupt_rising_handler ack_val s =
     s\<lparr>mode := PS2_GPIO_MODE_READ, write_buffer := 0, cur_write_pos := 0\<rparr>"
  by (simp add: ps2_gpio_scl_interrupt_rising_handler_def
      ps2_gpio_scl_interrupt_rising_check_write_ack_def PS2_GPIO_POS_ACK_def)

lemma rising_edge_ignored:
  "cur_write_pos s \<noteq> 11 \<Longrightarrow> ps2_gpio_scl_interrupt_rising_handler ack_val s = s"
  by (simp add: ps2_gpio_scl_interrupt_rising_handler_def PS2_GPIO_POS_ACK_def)

text \<open>
  C2. What the write transaction for 0xFE does from the initial state. \<open>ps2_gpio_write_byte\<close>
  sets the data pin (SDA) to 0, sleeps 110 microseconds, sets the clock pin (SCL) to 0 and
  sets the data pin to 1: the clock line is not the one held low during the sleep. The 10
  falling edges that follow put the bits 0,1,1,1,1,1,1,1 (data), 0 (parity), 1 (stop) on the
  clock pin, not on the data pin, and bring the write position to 11. The rising edge at
  position 11 then returns the driver to Read mode with write buffer 0 and write position 0.
\<close>

theorem C2_write_transaction_pins:
  "line_log (ps2_gpio_write_byte 0xFE ps2_gpio_data_init)
     = [Gpio_Pin_Set SDA_PIN 0, K_Sleep_Usec 110, Gpio_Pin_Set SCL_PIN 0, Gpio_Pin_Set SDA_PIN 1]
   \<and> line_log (feed_falling_edges [1, 1, 1, 1, 1, 1, 1, 1, 1, 1]
        (ps2_gpio_write_byte 0xFE ps2_gpio_data_init))
     = [Gpio_Pin_Set SDA_PIN 0, K_Sleep_Usec 110, Gpio_Pin_Set SCL_PIN 0, Gpio_Pin_Set SDA_PIN 1,
        Gpio_Pin_Set SCL_PIN 0, Gpio_Pin_Set SCL_PIN 1, Gpio_Pin_Set SCL_PIN 1,
        Gpio_Pin_Set SCL_PIN 1, Gpio_Pin_Set SCL_PIN 1, Gpio_Pin_Set SCL_PIN 1,
        Gpio_Pin_Set SCL_PIN 1, Gpio_Pin_Set SCL_PIN 1, Gpio_Pin_Set SCL_PIN 0,
        Gpio_Pin_Set SCL_PIN 1]
   \<and> cur_write_pos (feed_falling_edges [1, 1, 1, 1, 1, 1, 1, 1, 1, 1]
        (ps2_gpio_write_byte 0xFE ps2_gpio_data_init)) = 11
   \<and> ps2_gpio_scl_interrupt_rising_handler 0
        (feed_falling_edges [1, 1, 1, 1, 1, 1, 1, 1, 1, 1]
          (ps2_gpio_write_byte 0xFE ps2_gpio_data_init))
     = ps2_gpio_data_init\<lparr>line_log :=
         [Gpio_Pin_Set SDA_PIN 0, K_Sleep_Usec 110, Gpio_Pin_Set SCL_PIN 0, Gpio_Pin_Set SDA_PIN 1,
          Gpio_Pin_Set SCL_PIN 0, Gpio_Pin_Set SCL_PIN 1, Gpio_Pin_Set SCL_PIN 1,
          Gpio_Pin_Set SCL_PIN 1, Gpio_Pin_Set SCL_PIN 1, Gpio_Pin_Set SCL_PIN 1,
          Gpio_Pin_Set SCL_PIN 1, Gpio_Pin_Set SCL_PIN 1, Gpio_Pin_Set SCL_PIN 0,
          Gpio_Pin_Set SCL_PIN 1]\<rparr>"
  unfolding write_byte_FE
  by (simp add: feed_falling_edges_def write_step ps2_gpio_data_init_def PS2_GPIO_GET_BIT_def
      ps2_gpio_scl_interrupt_rising_handler_def ps2_gpio_scl_interrupt_rising_check_write_ack_def
      PS2_GPIO_POS_ACK_def)

section \<open>Delivery queue and callback dispatch\<close>

lemma empty_data_queue_loop_Nil: "empty_data_queue_loop objs [] = (None, [])"
  by (simp add: empty_data_queue_loop.simps k_fifo_get_def)

lemma empty_data_queue_loop_dead:
  "objs p = None \<Longrightarrow>
   empty_data_queue_loop objs (p # q) = (Some (Dangling_Pointer_Read p), p # q)"
  by (simp add: empty_data_queue_loop.simps k_fifo_get_def)

text \<open>On a queue of live items the loop ends with the queue empty.\<close>

lemma empty_data_queue_loop_live:
  "\<forall>p \<in> set q. objs p \<noteq> None \<Longrightarrow> empty_data_queue_loop objs q = (None, [])"
proof (induction q)
  case Nil
  show ?case by (rule empty_data_queue_loop_Nil)
next
  case (Cons p q)
  then obtain c where "objs p = Some c" by auto
  then have "empty_data_queue_loop objs (p # q) = empty_data_queue_loop objs q"
    by (subst empty_data_queue_loop.simps) (simp add: k_fifo_get_def)
  with Cons show ?case by simp
qed

lemma process_received_byte_listener:
  "callback_isr s = Some f \<Longrightarrow> callback_enabled s \<Longrightarrow>
   ps2_gpio_process_received_byte b s =
     s\<lparr>isr_calls := isr_calls s @ [(f, b)],
       byte_objs := (byte_objs s)(next_obj s := None), next_obj := next_obj s + 1\<rparr>"
  by (simp add: ps2_gpio_process_received_byte_def Let_def)

lemma process_received_byte_queue:
  "\<not> (callback_isr s \<noteq> None \<and> callback_enabled s) \<Longrightarrow>
   data_queue (ps2_gpio_process_received_byte b s) = data_queue s @ [next_obj s]
   \<and> isr_calls (ps2_gpio_process_received_byte b s) = isr_calls s
   \<and> byte_objs (ps2_gpio_process_received_byte b s) (next_obj s) = None"
  by (auto simp: ps2_gpio_process_received_byte_def Let_def k_fifo_put_def
      split: prod.splits option.splits)

lemma process_received_byte_no_live_objs:
  "byte_objs s = (\<lambda>_. None) \<Longrightarrow> byte_objs (ps2_gpio_process_received_byte b s) = (\<lambda>_. None)"
  by (auto simp: ps2_gpio_process_received_byte_def Let_def k_fifo_put_def
      split: prod.splits option.splits)

lemma read_empty_queue:
  "data_queue s = [] \<Longrightarrow> ps2_gpio_read s = (Inr (- ETIMEDOUT, None), s)"
  by (simp add: ps2_gpio_read_def k_fifo_get_def)

lemma empty_data_queue_no_live_objs:
  "byte_objs (snd (ps2_gpio_empty_data_queue s)) = byte_objs s"
  by (simp add: ps2_gpio_empty_data_queue_def split: prod.splits option.splits)

text \<open>
  Between the calls of the driver no object of a delivery is live, so in every reachable
  state a read, and a flush, of a queue that is not empty go through a dangling address.
\<close>

lemma step_no_live_objs:
  assumes "byte_objs s = (\<lambda>_. None)"
  shows "byte_objs (ps2_step e s) = (\<lambda>_. None)"
proof (cases e)
  case (Falling_Edge v)
  then show ?thesis using assms
    by (auto simp: ps2_gpio_scl_interrupt_falling_handler_def
        ps2_gpio_scl_interrupt_falling_read_bit_def ps2_gpio_scl_interrupt_falling_write_bit_def
        ps2_gpio_set_sda_def abort_read_eq Let_def process_received_byte_no_live_objs)
next
  case (Rising_Edge v)
  then show ?thesis using assms
    by (simp add: ps2_gpio_scl_interrupt_rising_handler_def
        ps2_gpio_scl_interrupt_rising_check_write_ack_def)
next
  case (Write_Byte b)
  then show ?thesis using assms
    by (simp add: ps2_gpio_write_byte_def Let_def ps2_gpio_set_scl_def ps2_gpio_set_sda_def
        k_sleep_usec_def)
next
  case Abort_Read
  then show ?thesis using assms by (simp add: abort_read_eq)
next
  case (Deliver b)
  then show ?thesis using assms by (simp add: process_received_byte_no_live_objs)
next
  case (Api_Configure isr)
  then show ?thesis using assms
    by (simp add: ps2_gpio_configure_def ps2_gpio_enable_callback_def
        ps2_gpio_empty_data_queue_def Let_def split: prod.splits option.splits sum.splits)
next
  case Api_Read
  then show ?thesis using assms
    by (simp add: ps2_gpio_read_def split: prod.splits option.splits sum.splits)
next
  case (Api_Write b)
  then show ?thesis using assms by (simp add: ps2_gpio_write_def)
next
  case Api_Enable_Callback
  then show ?thesis using assms
    by (simp add: ps2_gpio_enable_callback_def ps2_gpio_empty_data_queue_def Let_def
        split: prod.splits option.splits)
next
  case Api_Disable_Callback
  then show ?thesis using assms
    by (simp add: ps2_gpio_disable_callback_def ps2_gpio_empty_data_queue_def Let_def
        split: prod.splits option.splits)
qed

lemma reachable_no_live_objs: "ps2_reachable s \<Longrightarrow> byte_objs s = (\<lambda>_. None)"
  by (induction rule: ps2_reachable.induct) (simp_all add: ps2_gpio_data_init_def step_no_live_objs)

lemma reachable_read_dangling:
  "ps2_reachable s \<Longrightarrow> data_queue s = p # q \<Longrightarrow>
   fst (ps2_gpio_read s) = Inl (Dangling_Pointer_Read p)"
  by (simp add: ps2_gpio_read_def k_fifo_get_def reachable_no_live_objs)

lemma reachable_flush_dangling:
  assumes "ps2_reachable s" and "data_queue s = p # q"
  shows "fst (ps2_gpio_disable_callback s) = Inl (Dangling_Pointer_Read p)"
    and "fst (ps2_gpio_enable_callback s) = Inl (Dangling_Pointer_Read p)"
  using assms
  by (simp_all add: ps2_gpio_disable_callback_def ps2_gpio_enable_callback_def Let_def
      ps2_gpio_empty_data_queue_def reachable_no_live_objs empty_data_queue_loop_dead)

text \<open>
  C6. What the delivery of the byte 0x1C does in the initial state (no listener): the queue
  receives the address of the parameter \<open>byte\<close> of \<open>ps2_gpio_process_received_byte\<close>
  (object 0), and after the return no live object is at that address: the queue holds
  a dangling address, not the byte.
\<close>

theorem C6_deliver_enqueues_parameter_address:
  "ps2_gpio_process_received_byte 0x1C ps2_gpio_data_init
     = ps2_gpio_data_init\<lparr>data_queue := [0], next_obj := 1\<rparr>
   \<and> byte_objs (ps2_gpio_process_received_byte 0x1C ps2_gpio_data_init) 0 = None"
  by (simp add: ps2_gpio_process_received_byte_def Let_def ps2_gpio_data_init_def k_fifo_put_def)

text \<open>
  C7. What \<open>ps2_gpio_read\<close> does after the delivery of the byte 0x1C in the initial state
  (no listener): it takes the queued address and reads through it, though the object
  it pointed to is gone; the byte 0x1C is not returned. On the empty queue of the initial
  state, \<open>ps2_gpio_read\<close> returns \<open>-ETIMEDOUT\<close>, which is not 0, and stores no byte.
\<close>

theorem C7_read_dangling_queue_item:
  "fst (ps2_gpio_read (ps2_gpio_process_received_byte 0x1C ps2_gpio_data_init))
     = Inl (Dangling_Pointer_Read 0)
   \<and> fst (ps2_gpio_read ps2_gpio_data_init) = Inr (- ETIMEDOUT, None)
   \<and> - ETIMEDOUT \<noteq> 0"
  by (simp add: ps2_gpio_process_received_byte_def Let_def ps2_gpio_data_init_def k_fifo_put_def
      ps2_gpio_read_def k_fifo_get_def ETIMEDOUT_def)

text \<open>
  C8. What \<open>ps2_gpio_disable_callback\<close> and \<open>ps2_gpio_enable_callback\<close> do after the delivery
  of the byte 0x1C in the initial state (no listener): the loop of
  \<open>ps2_gpio_empty_data_queue\<close> calls \<open>k_fifo_get\<close>, which must read the link word kept in the
  queued item, and that item is the parameter \<open>byte\<close> of a call that has returned. The
  flush goes through a dangling address; it does not return 0 with the queue emptied.
  On the empty queue of the initial state both operations return 0 and leave it empty.
\<close>

theorem C8_flush_dangling_queue_item:
  "fst (ps2_gpio_disable_callback (ps2_gpio_process_received_byte 0x1C ps2_gpio_data_init))
     = Inl (Dangling_Pointer_Read 0)
   \<and> fst (ps2_gpio_enable_callback (ps2_gpio_process_received_byte 0x1C ps2_gpio_data_init))
     = Inl (Dangling_Pointer_Read 0)
   \<and> data_queue (snd (ps2_gpio_disable_callback
        (ps2_gpio_process_received_byte 0x1C ps2_gpio_data_init))) = [0]
   \<and> ps2_gpio_disable_callback ps2_gpio_data_init = (Inr 0, ps2_gpio_data_init)
   \<and> ps2_gpio_enable_callback ps2_gpio_data_init
     = (Inr 0, ps2_gpio_data_init\<lparr>callback_enabled := True\<rparr>)"
  by (simp add: ps2_gpio_process_received_byte_def Let_def ps2_gpio_data_init_def k_fifo_put_def
      ps2_gpio_disable_callback_def ps2_gpio_enable_callback_def ps2_gpio_empty_data_queue_def
      empty_data_queue_loop_Nil empty_data_queue_loop_dead)

section \<open>Driver interface\<close>

text \<open>
  C9. For every byte, \<open>ps2_gpio_write\<close> of the driver API returns 0 and leaves the whole
  state as it was: no frame is encoded and no line is driven. No operation of the driver
  API (configure, read, write, disable\_callback, enable\_callback) changes the line log,
  the mode, the write buffer, the write position or the read accumulator, which every call
  of \<open>ps2_gpio_write_byte\<close> does change: the transmit sequence is not run by the API.
\<close>

theorem C9_api_write_is_stub:
  "ps2_gpio_write v s = (0, s)
   \<and> transmit_view (snd (ps2_gpio_configure isr s)) = transmit_view s
   \<and> transmit_view (snd (ps2_gpio_read s)) = transmit_view s
   \<and> transmit_view (snd (ps2_gpio_write v s)) = transmit_view s
   \<and> transmit_view (snd (ps2_gpio_disable_callback s)) = transmit_view s
   \<and> transmit_view (snd (ps2_gpio_enable_callback s)) = transmit_view s
   \<and> transmit_view (ps2_gpio_write_byte b s) \<noteq> transmit_view s"
  by (simp add: ps2_gpio_write_def transmit_view_def ps2_gpio_configure_def ps2_gpio_read_def
      ps2_gpio_enable_callback_def ps2_gpio_disable_callback_def ps2_gpio_empty_data_queue_def
      Let_def ps2_gpio_write_byte_def ps2_gpio_set_scl_def ps2_gpio_set_sda_def k_sleep_usec_def
      split: prod.splits option.splits sum.splits obj_content.splits)

section \<open>Invariant of the receive accumulator\<close>

lemma step_read_invariant:
  assumes "0 \<le> cur_read_pos s" and "cur_read_pos s \<le> 10"
    and "cur_read_pos s = 0 \<longrightarrow> cur_read_byte s = 0"
  shows "0 \<le> cur_read_pos (ps2_step e s) \<and> cur_read_pos (ps2_step e s) \<le> 10
       \<and> (cur_read_pos (ps2_step e s) = 0 \<longrightarrow> cur_read_byte (ps2_step e s) = 0)"
proof (cases e)
  case (Falling_Edge v)
  then show ?thesis using assms
    by (auto simp: ps2_gpio_scl_interrupt_falling_handler_def
        ps2_gpio_scl_interrupt_falling_read_bit_def ps2_gpio_scl_interrupt_falling_write_bit_def
        ps2_gpio_set_sda_def pos_defs abort_read_eq Let_def ps2_gpio_process_received_byte_def
        split: prod.splits)
next
  case (Rising_Edge v)
  then show ?thesis using assms
    by (simp add: ps2_gpio_scl_interrupt_rising_handler_def
        ps2_gpio_scl_interrupt_rising_check_write_ack_def)
next
  case (Write_Byte b)
  then show ?thesis
    by (simp add: ps2_gpio_write_byte_def Let_def ps2_gpio_set_scl_def ps2_gpio_set_sda_def
        k_sleep_usec_def)
next
  case Abort_Read
  then show ?thesis by (simp add: abort_read_eq)
next
  case (Deliver b)
  then show ?thesis using assms
    by (simp add: ps2_gpio_process_received_byte_def Let_def split: prod.splits)
next
  case (Api_Configure isr)
  then show ?thesis using assms
    by (simp add: ps2_gpio_configure_def ps2_gpio_enable_callback_def
        ps2_gpio_empty_data_queue_def Let_def split: prod.splits option.splits sum.splits)
next
  case Api_Read
  then show ?thesis using assms
    by (simp add: ps2_gpio_read_def
        split: prod.splits option.splits sum.splits obj_content.splits)
next
  case (Api_Write b)
  then show ?thesis using assms by (simp add: ps2_gpio_write_def)
next
  case Api_Enable_Callback
  then show ?thesis using assms
    by (simp add: ps2_gpio_enable_callback_def ps2_gpio_empty_data_queue_def Let_def
        split: prod.splits option.splits)
next
  case Api_Disable_Callback
  then show ?thesis using assms
    by (simp add: ps2_gpio_disable_callback_def ps2_gpio_empty_data_queue_def Let_def
        split: prod.splits option.splits)
qed

text \<open>
  C10. In every state reachable from the initial state by edge events, aborts, deliveries,
  write transactions and API calls, the read position is between 0 and 10, and whenever it
  is 0 the read accumulator is 0.
\<close>

theorem C10_accumulator_zero_at_start:
  assumes "ps2_reachable s"
  shows "(cur_read_pos s = 0 \<longrightarrow> cur_read_byte s = 0)
       \<and> 0 \<le> cur_read_pos s \<and> cur_read_pos s \<le> 10"
  using assms
proof (induction rule: ps2_reachable.induct)
  case reach_init
  show ?case by (simp add: ps2_gpio_data_init_def)
next
  case (reach_step s e)
  then show ?case using step_read_invariant [of s e] by blast
qed

theorem C10_accumulator_zero_at_start_witness:
  "ps2_reachable (ps2_step (Write_Byte 0xFE)
      (ps2_step (Falling_Edge 1) (ps2_step (Falling_Edge 0) ps2_gpio_data_init)))
   \<and> cur_read_pos (ps2_step (Falling_Edge 1) (ps2_step (Falling_Edge 0) ps2_gpio_data_init)) = 2
   \<and> cur_read_byte (ps2_step (Falling_Edge 1) (ps2_step (Falling_Edge 0) ps2_gpio_data_init)) = 1
   \<and> cur_read_pos (ps2_step (Write_Byte 0xFE)
        (ps2_step (Falling_Edge 1) (ps2_step (Falling_Edge 0) ps2_gpio_data_init))) = 0
   \<and> cur_read_byte (ps2_step (Write_Byte 0xFE)
        (ps2_step (Falling_Edge 1) (ps2_step (Falling_Edge 0) ps2_gpio_data_init))) = 0"
proof -
  have r: "ps2_reachable (ps2_step (Write_Byte 0xFE)
      (ps2_step (Falling_Edge 1) (ps2_step (Falling_Edge 0) ps2_gpio_data_init)))"
    by (intro ps2_reachable.intros)
  have mid: "ps2_step (Falling_Edge 1) (ps2_step (Falling_Edge 0) ps2_gpio_data_init)
      = ps2_gpio_data_init\<lparr>cur_read_byte := 1, cur_read_pos := 2\<rparr>"
    by (simp add: ps2_gpio_scl_interrupt_falling_handler_def
        ps2_gpio_scl_interrupt_falling_read_bit_def pos_defs ps2_gpio_data_init_def
        PS2_GPIO_SET_BIT_def Let_def)
  have p: "cur_read_pos (ps2_step (Write_Byte 0xFE)
        (ps2_step (Falling_Edge 1) (ps2_step (Falling_Edge 0) ps2_gpio_data_init))) = 0"
    by (simp add: ps2_gpio_write_byte_def Let_def ps2_gpio_set_scl_def ps2_gpio_set_sda_def
        k_sleep_usec_def)
  have b: "cur_read_byte (ps2_step (Write_Byte 0xFE)
        (ps2_step (Falling_Edge 1) (ps2_step (Falling_Edge 0) ps2_gpio_data_init))) = 0"
    using C10_accumulator_zero_at_start [OF r] p by blast
  have m1: "cur_read_pos (ps2_step (Falling_Edge 1) (ps2_step (Falling_Edge 0) ps2_gpio_data_init)) = 2"
    and m2: "cur_read_byte (ps2_step (Falling_Edge 1) (ps2_step (Falling_Edge 0) ps2_gpio_data_init)) = 1"
    by (simp_all only: mid) simp_all
  show ?thesis
    by (intro conjI r m1 m2 p b)
qed

end
